theory Spec2Isabelle
  imports Main "HOL-Library.Word"
begin

section \<open>JavaScript values used by the adapter\<close>

text \<open>
  A JavaScript string is a sequence of UTF-16 code units; \<open>length\<close>, \<open>substring\<close> and
  \<open>trim\<close> all work on code units.  String literals of the source are ASCII and are
  written with \<open>js\<close>.
\<close>

type_synonym jsstring = "16 word list"

definition js :: "string \<Rightarrow> jsstring" where
  "js s = map (\<lambda>c. word_of_nat (of_char c)) s"

text \<open>
  The code units removed by \<open>String.prototype.trim\<close>: the WhiteSpace and
  LineTerminator productions of ECMAScript.
\<close>

definition ws_units :: "16 word list" where
  "ws_units =
     [0x0009, 0x000A, 0x000B, 0x000C, 0x000D, 0x0020, 0x00A0, 0x1680,
      0x2000, 0x2001, 0x2002, 0x2003, 0x2004, 0x2005, 0x2006, 0x2007,
      0x2008, 0x2009, 0x200A, 0x2028, 0x2029, 0x202F, 0x205F, 0x3000, 0xFEFF]"

definition is_ws :: "16 word \<Rightarrow> bool" where
  "is_ws c = (c \<in> set ws_units)"

definition trim :: "jsstring \<Rightarrow> jsstring" where
  "trim s = rev (dropWhile is_ws (rev (dropWhile is_ws s)))"

text \<open>\<open>s.substring(0, n)\<close>: a negative end index counts as 0, one past the end as the length.\<close>

definition substring0 :: "jsstring \<Rightarrow> int \<Rightarrow> jsstring" where
  "substring0 s n = take (nat n) s"

text \<open>Truthiness of an optional string and of an optional number.\<close>

fun truthy_str :: "jsstring option \<Rightarrow> bool" where
  "truthy_str None = False"
| "truthy_str (Some s) = (s \<noteq> [])"

fun truthy_num :: "int option \<Rightarrow> bool" where
  "truthy_num None = False"
| "truthy_num (Some n) = (n \<noteq> 0)"

text \<open>A \<open>File\<close> is an opaque binary object; it is identified by a handle.\<close>

datatype File = File nat

text \<open>\<open>files?.[i]\<close> and \<open>files[i]\<close>: \<open>undefined\<close> out of range.\<close>

fun nth_opt :: "'a list \<Rightarrow> nat \<Rightarrow> 'a option" where
  "nth_opt [] i = None"
| "nth_opt (x # xs) 0 = Some x"
| "nth_opt (x # xs) (Suc i) = nth_opt xs i"

section \<open>Data model\<close>

text \<open>
  \<open>RequestSettings\<close>: the source reads \<open>url\<close> and \<open>headers\<close>.  \<open>FileAttachments\<close> and its
  \<open>infoModal\<close>: the source reads \<open>acceptedFormats\<close>, \<open>maxNumberOfFiles\<close>, \<open>infoModal\<close>,
  \<open>textMarkDown\<close> and \<open>openModalOnce\<close>.  An absent property is \<open>None\<close>.
\<close>

record RequestSettings =
  rs_url :: "jsstring option"
  rs_headers :: "(jsstring \<rightharpoonup> jsstring) option"

record InfoModal =
  textMarkDown :: "jsstring option"
  openModalOnce :: "bool option"

record FileAttachments =
  acceptedFormats :: "jsstring option"
  maxNumberOfFiles :: "int option"
  infoModal :: "InfoModal option"

text \<open>
  \<^verbatim>\<open>type Images = ImagesConfig & {files?: FileAttachments};\<close>
  The property \<open>files\<close> is the field \<open>img_files\<close>.
\<close>

record Images =
  img_files :: "FileAttachments option"
  infoModalTextMarkUp :: "jsstring option"

text \<open>
  The scalar values of a request body, and a JavaScript object of such values as the
  list of its own properties in insertion order (the order of \<open>Object.keys\<close>).  The
  numbers of a body are whole numbers, such as the image count \<open>n\<close>.  A copy made by
  \<open>JSON.parse(JSON.stringify(body))\<close> has the same properties with the same values.
\<close>

datatype jscalar = JString jsstring | JNumber int | JBool bool | JNull

type_synonym jobject = "(jsstring \<times> jscalar) list"

text \<open>\<open>obj[k] = v\<close>: an existing property keeps its place, a new one goes last.\<close>

fun set_prop :: "jsstring \<Rightarrow> jscalar \<Rightarrow> jobject \<Rightarrow> jobject" where
  "set_prop k v [] = [(k, v)]"
| "set_prop k v ((k', v') # ps) =
     (if k' = k then (k, v) # ps else (k', v') # set_prop k v ps)"

text \<open>
  The object form of the caller's service configuration
  (\<open>OpenAIImagesConfig & CustomFileConfig\<close>): the properties \<open>files\<close> and \<open>request\<close>, and
  the remaining properties, which are the fields of the request body.  The adapter keeps
  a reference to this object as its raw body template, so configuration objects and
  request bodies live in a store and are named by their address.
\<close>

record Config =
  cfg_files :: "FileAttachments option"
  cfg_request :: "RequestSettings option"
  cfg_body :: jobject

type_synonym addr = nat

type_synonym store = "Config list"

definition alloc :: "store \<Rightarrow> Config \<Rightarrow> addr \<times> store" where
  "alloc s obj = (length s, s @ [obj])"

definition empty_object :: Config where
  "empty_object = \<lparr>cfg_files = None, cfg_request = None, cfg_body = []\<rparr>"

definition empty_settings :: RequestSettings where
  "empty_settings = \<lparr>rs_url = None, rs_headers = None\<rparr>"

text \<open>The value of \<open>aiAssistant.openAI?.completions\<close>: absent, \<open>true\<close>, or an object.\<close>

datatype completions = Undefined | IsTrue | Object addr

text \<open>
  The properties of \<open>aiAssistant\<close> that the constructor destructures.  The request
  interceptor is stored as it is and read by the request executor only; it is left out.
\<close>

record AiAssistant =
  openAI_completions :: completions
  inputCharacterLimit :: "int option"
  validateMessageBeforeSending :: "(jsstring \<Rightarrow> File list option \<Rightarrow> bool) option"

record MessageContent =
  role :: jsstring
  content :: jsstring

text \<open>The adapter object: the fields of \<open>class OpenAIImagesIO\<close>.\<close>

record OpenAIImagesIO =
  url :: jsstring
  io_canSendMessage :: "jsstring \<Rightarrow> File list option \<Rightarrow> bool"
  images :: Images
  maxCharLength :: int
  requestSettings :: RequestSettings
  raw_body :: addr

text \<open>
  What the imported modules provide: the constants \<open>OpenAIUtils.IMAGES_MAX_CHAR_LENGTH\<close>
  and \<open>BASE_64_PREFIX\<close>, the markdown renderer \<open>remarkable.render\<close>, and the name and value
  of the authentication header that \<open>OpenAIUtils.buildRequestSettings\<close> sets for a key.
\<close>

record externals =
  IMAGES_MAX_CHAR_LENGTH :: int
  BASE_64_PREFIX :: jsstring
  render :: "jsstring \<Rightarrow> jsstring"
  authHeader :: "jsstring \<Rightarrow> jsstring \<times> jsstring"

section \<open>Static members\<close>

definition IMAGE_GENERATION_URL :: jsstring where
  "IMAGE_GENERATION_URL = js ''https://api.openai.com/v1/images/generations''"

definition IMAGE_VARIATIONS_URL :: jsstring where
  "IMAGE_VARIATIONS_URL = js ''https://api.openai.com/v1/images/variations''"

definition IMAGE_EDIT_URL :: jsstring where
  "IMAGE_EDIT_URL = js ''https://api.openai.com/v1/images/edits''"

definition nl :: string where
  "nl = [CHR 0x0A]"

definition MODAL_MARKDOWN :: jsstring where
  "MODAL_MARKDOWN = js (concat
     [nl,
      ''1 image:'', nl,
      nl,
      ''- With text - edits image based on the text'', nl,
      ''- No text - creates a variation of the image'', nl,
      nl,
      ''2 images:'', nl,
      nl,
      ''- The second image needs to be a copy of the first with a transparent area where the edit should take place.'', nl,
      ''Add text to describe the required modification.'', nl,
      nl,
      ''Click here for [more info](https://platform.openai.com/docs/guides/images/introduction).'', nl,
      ''  ''])"

section \<open>Send eligibility\<close>

text \<open>
  \<^verbatim>\<open>private static canSendMessage(text: string, files?: File[]) {
    return !!files?.[0] || text.trim() !== '';
  }\<close>
\<close>

definition canSendMessage :: "jsstring \<Rightarrow> File list option \<Rightarrow> bool" where
  "canSendMessage text files =
     ((case files of None \<Rightarrow> False | Some fs \<Rightarrow> nth_opt fs 0 \<noteq> None) \<or> trim text \<noteq> [])"

section \<open>Construction\<close>

text \<open>
  \<^verbatim>\<open>images: Images = {files: {acceptedFormats: '.png', maxNumberOfFiles: 2,
    infoModal: {openModalOnce: true}}};\<close>
\<close>

definition default_images :: Images where
  "default_images =
     \<lparr>img_files = Some \<lparr>acceptedFormats = Some (js ''.png''), maxNumberOfFiles = Some 2,
                     infoModal = Some \<lparr>textMarkDown = None, openModalOnce = Some True\<rparr>\<rparr>,
      infoModalTextMarkUp = None\<rparr>"

text \<open>\<open>Object.assign(target, source)\<close> on info modals; an absent source changes nothing.\<close>

definition assign_infoModal :: "InfoModal \<Rightarrow> InfoModal option \<Rightarrow> InfoModal" where
  "assign_infoModal target source =
     (case source of
        None \<Rightarrow> target
      | Some src \<Rightarrow>
          \<lparr>textMarkDown = (case textMarkDown src of None \<Rightarrow> textMarkDown target | Some m \<Rightarrow> Some m),
           openModalOnce = (case openModalOnce src of None \<Rightarrow> openModalOnce target | Some b \<Rightarrow> Some b)\<rparr>)"

text \<open>\<open>files.infoModal?.textMarkDown || OpenAIImagesIO.MODAL_MARKDOWN\<close>\<close>

definition chosen_markdown :: "FileAttachments \<Rightarrow> jsstring" where
  "chosen_markdown fa =
     (case infoModal fa of
        None \<Rightarrow> MODAL_MARKDOWN
      | Some m \<Rightarrow> (case textMarkDown m of
                    None \<Rightarrow> MODAL_MARKDOWN
                  | Some md \<Rightarrow> if md \<noteq> [] then md else MODAL_MARKDOWN))"

text \<open>
  \<^verbatim>\<open>private static processImagesConfig(files, _images, remarkable) {
    if (_images.files) {
      if (_images.files.infoModal) {
        Object.assign(_images.files.infoModal, files.infoModal);
        const markdown = files.infoModal?.textMarkDown || OpenAIImagesIO.MODAL_MARKDOWN;
        _images.infoModalTextMarkUp = remarkable.render(markdown);
      }
      if (files.acceptedFormats) _images.files.acceptedFormats = files.acceptedFormats;
      if (files.maxNumberOfFiles) _images.files.maxNumberOfFiles = files.maxNumberOfFiles;
    }
  }\<close>
  The function updates \<open>_images\<close> in place; the model returns the updated value.
\<close>

definition processImagesConfig :: "externals \<Rightarrow> FileAttachments \<Rightarrow> Images \<Rightarrow> Images" where
  "processImagesConfig ext fa imgs =
     (case img_files imgs of
        None \<Rightarrow> imgs
      | Some f0 \<Rightarrow>
          let f1 = (case infoModal f0 of
                      None \<Rightarrow> f0
                    | Some m \<Rightarrow> f0\<lparr>infoModal := Some (assign_infoModal m (infoModal fa))\<rparr>);
              markup = (case infoModal f0 of
                          None \<Rightarrow> infoModalTextMarkUp imgs
                        | Some m \<Rightarrow> Some (render ext (chosen_markdown fa)));
              f2 = (if truthy_str (acceptedFormats fa)
                    then f1\<lparr>acceptedFormats := acceptedFormats fa\<rparr> else f1);
              f3 = (if truthy_num (maxNumberOfFiles fa)
                    then f2\<lparr>maxNumberOfFiles := maxNumberOfFiles fa\<rparr> else f2)
          in \<lparr>img_files = Some f3, infoModalTextMarkUp = markup\<rparr>)"

text \<open>
  \<^verbatim>\<open>private static cleanConfig(config: CustomFileConfig) {
    delete config.files;
    delete config.request;
  }\<close>
  The deletion happens in the object the caller passed.
\<close>

definition cleanConfig :: "store \<Rightarrow> addr \<Rightarrow> store" where
  "cleanConfig s c = s[c := (s ! c)\<lparr>cfg_files := None, cfg_request := None\<rparr>]"

text \<open>
  Modelled from the spec: \<open>OpenAIUtils.buildRequestSettings\<close>, which is not among the
  sources.  It merges the key into the request settings as an authentication header,
  keeping the other settings and headers.
\<close>

definition buildRequestSettings :: "externals \<Rightarrow> jsstring \<Rightarrow> RequestSettings \<Rightarrow> RequestSettings" where
  "buildRequestSettings ext key rs =
     rs\<lparr>rs_headers :=
          Some ((case rs_headers rs of None \<Rightarrow> Map.empty | Some h \<Rightarrow> h)
                  (fst (authHeader ext key) \<mapsto> snd (authHeader ext key)))\<rparr>"

text \<open>
  \<^verbatim>\<open>(typeof config === 'object' ? config.request : undefined) || {}\<close>
\<close>

definition config_request :: "store \<Rightarrow> completions \<Rightarrow> RequestSettings" where
  "config_request s config =
     (case config of
        Object c \<Rightarrow> (case cfg_request (s ! c) of None \<Rightarrow> empty_settings | Some r \<Rightarrow> r)
      | _ \<Rightarrow> empty_settings)"

text \<open>
  \<^verbatim>\<open>constructor(aiAssistant: AiAssistant, key?: string) {
    const {openAI, requestInterceptor, inputCharacterLimit, validateMessageBeforeSending} = aiAssistant;
    if (inputCharacterLimit) this._maxCharLength = inputCharacterLimit;
    this.requestInterceptor = requestInterceptor || ((details) => details);
    const config = openAI?.completions as OpenAI['images'];
    const requestSettings = (typeof config === 'object' ? config.request : undefined) || {};
    if (key) this.requestSettings = key ? OpenAIUtils.buildRequestSettings(key, requestSettings) : requestSettings;
    const remarkable = RemarkableConfig.createNew();
    if (config && typeof config !== 'boolean') {
      if (config.files) OpenAIImagesIO.processImagesConfig(config.files, this.images, remarkable);
      OpenAIImagesIO.cleanConfig(config);
      this._raw_body = config;
    } else if (this.images?.files?.infoModal) {
      this.images.infoModalTextMarkUp = remarkable.render(OpenAIImagesIO.MODAL_MARKDOWN);
    }
    if (validateMessageBeforeSending) this.canSendMessage = validateMessageBeforeSending;
  }\<close>
  The field initialisers run first; the one of \<open>_raw_body\<close> creates a new empty object.
\<close>

definition new_OpenAIImagesIO ::
  "externals \<Rightarrow> store \<Rightarrow> AiAssistant \<Rightarrow> jsstring option \<Rightarrow> OpenAIImagesIO \<times> store" where
  "new_OpenAIImagesIO ext s aiAssistant key =
     (let (raw0, s0) = alloc s empty_object;
          this0 = \<lparr>url = [], io_canSendMessage = canSendMessage, images = default_images,
                   maxCharLength = IMAGES_MAX_CHAR_LENGTH ext,
                   requestSettings = empty_settings, raw_body = raw0\<rparr>;
          this1 = (if truthy_num (inputCharacterLimit aiAssistant)
                   then this0\<lparr>maxCharLength := the (inputCharacterLimit aiAssistant)\<rparr>
                   else this0);
          config = openAI_completions aiAssistant;
          rs = config_request s0 config;
          this2 = (if truthy_str key
                   then this1\<lparr>requestSettings := buildRequestSettings ext (the key) rs\<rparr>
                   else this1);
          (this3, s3) =
            (case config of
               Object c \<Rightarrow>
                 ((case cfg_files (s0 ! c) of
                     None \<Rightarrow> this2
                   | Some fa \<Rightarrow> this2\<lparr>images := processImagesConfig ext fa (images this2)\<rparr>)
                    \<lparr>raw_body := c\<rparr>,
                  cleanConfig s0 c)
             | _ \<Rightarrow>
                 ((case img_files (images this2) of
                     None \<Rightarrow> this2
                   | Some f \<Rightarrow>
                       (case infoModal f of
                          None \<Rightarrow> this2
                        | Some m \<Rightarrow>
                            this2\<lparr>images := (images this2)
                                     \<lparr>infoModalTextMarkUp := Some (render ext MODAL_MARKDOWN)\<rparr>\<rparr>)),
                  s0));
          this4 = (case validateMessageBeforeSending aiAssistant of
                     None \<Rightarrow> this3
                   | Some v \<Rightarrow> this3\<lparr>io_canSendMessage := v\<rparr>)
      in (this4, s3))"

section \<open>Key verification\<close>

text \<open>
  The caller's handlers act on the caller's own state \<open>'c\<close> and may read the adapter.  The
  answer of the remote service to the verification request is an input of the model.
\<close>

datatype verification = Verified | Rejected jsstring

record 'c KeyVerificationHandlers =
  onSuccess :: "jsstring \<Rightarrow> OpenAIImagesIO \<Rightarrow> 'c \<Rightarrow> 'c"
  onFail :: "jsstring \<Rightarrow> OpenAIImagesIO \<Rightarrow> 'c \<Rightarrow> 'c"
  onLoad :: "OpenAIImagesIO \<Rightarrow> 'c \<Rightarrow> 'c"

text \<open>
  \<^verbatim>\<open>private addKey(onSuccess: (key: string) => void, key: string) {
    this.requestSettings = OpenAIUtils.buildRequestSettings(key, this.requestSettings);
    onSuccess(key);
  }\<close>
\<close>

definition addKey ::
  "externals \<Rightarrow> (jsstring \<Rightarrow> OpenAIImagesIO \<Rightarrow> 'c \<Rightarrow> 'c) \<Rightarrow> jsstring \<Rightarrow>
     OpenAIImagesIO \<times> 'c \<Rightarrow> OpenAIImagesIO \<times> 'c" where
  "addKey ext on_success key st =
     (let this = (fst st)\<lparr>requestSettings := buildRequestSettings ext key (requestSettings (fst st))\<rparr>
      in (this, on_success key this (snd st)))"

text \<open>
  Modelled from the spec: \<open>OpenAIUtils.verifyKey\<close>, which is not among the sources.  It
  validates the key of the input element against the remote service; the loading handler
  is invoked for the attempt, then on success the success callback is invoked with the
  key and on failure the failure callback with the error.
\<close>

definition OpenAIUtils_verifyKey ::
  "jsstring \<Rightarrow> verification \<Rightarrow> (jsstring \<Rightarrow> 'st \<Rightarrow> 'st) \<Rightarrow> (jsstring \<Rightarrow> 'st \<Rightarrow> 'st) \<Rightarrow>
     ('st \<Rightarrow> 'st) \<Rightarrow> 'st \<Rightarrow> 'st" where
  "OpenAIUtils_verifyKey key answer on_success on_fail on_load st =
     (case answer of
        Verified \<Rightarrow> on_success key (on_load st)
      | Rejected err \<Rightarrow> on_fail err (on_load st))"

text \<open>
  \<^verbatim>\<open>verifyKey(inputElement: HTMLInputElement, keyVerificationHandlers: KeyVerificationHandlers) {
    OpenAIUtils.verifyKey(inputElement, this.addKey.bind(this, keyVerificationHandlers.onSuccess),
      keyVerificationHandlers.onFail, keyVerificationHandlers.onLoad);
  }\<close>
\<close>

definition verifyKey ::
  "externals \<Rightarrow> jsstring \<Rightarrow> verification \<Rightarrow> 'c KeyVerificationHandlers \<Rightarrow>
     OpenAIImagesIO \<times> 'c \<Rightarrow> OpenAIImagesIO \<times> 'c" where
  "verifyKey ext inputElement answer handlers st =
     OpenAIUtils_verifyKey inputElement answer
       (addKey ext (onSuccess handlers))
       (\<lambda>err st'. (fst st', onFail handlers err (fst st') (snd st')))
       (\<lambda>st'. (fst st', onLoad handlers (fst st') (snd st')))
       st"

section \<open>Building and dispatching a request\<close>

text \<open>\<open>String(v)\<close> for a scalar: decimal digits for a number.\<close>

fun digits :: "nat \<Rightarrow> string" where
  "digits n =
     (if n < 10 then [char_of (48 + n)]
      else digits (n div 10) @ [char_of (48 + n mod 10)])"

declare digits.simps [simp del]

fun String :: "jscalar \<Rightarrow> jsstring" where
  "String (JString s) = s"
| "String (JNumber i) = js ((if i < 0 then ''-'' else []) @ digits (nat \<bar>i\<bar>))"
| "String (JBool b) = js (if b then ''true'' else ''false'')"
| "String JNull = js ''null''"

text \<open>A multipart form: its entries in the order they were appended.\<close>

datatype FormValue = Blob File | Text jsstring

type_synonym FormData = "(jsstring \<times> FormValue) list"

text \<open>
  \<^verbatim>\<open>private static createFormDataBody(body: OpenAIImagesConfig, image: File, mask?: File) {
    const formData = new FormData();
    formData.append('image', image);
    if (mask) formData.append('mask', mask);
    Object.keys(body).forEach((key) => {
      formData.append(key, String(body[key as keyof OpenAIImagesConfig]));
    });
    return formData;
  }\<close>
  The callers pass \<open>files[0]\<close> and \<open>files[1]\<close>, which are \<open>undefined\<close> out of range; an
  \<open>undefined\<close> value is appended as the string \<open>undefined\<close>.  The body is a raw body
  template or a copy of one, with the properties \<open>files\<close> and \<open>request\<close> deleted.
\<close>

definition createFormDataBody :: "store \<Rightarrow> addr \<Rightarrow> File option \<Rightarrow> File option \<Rightarrow> FormData" where
  "createFormDataBody s body image_file mask_file =
     [(js ''image'', (case image_file of None \<Rightarrow> Text (js ''undefined'') | Some f \<Rightarrow> Blob f))]
     @ (case mask_file of None \<Rightarrow> [] | Some m \<Rightarrow> [(js ''mask'', Blob m)])
     @ map (\<lambda>(key, v). (key, Text (String v))) (cfg_body (s ! body))"

datatype error =
    RequestSettingsNotSetUp  \<comment> \<open>\<open>Error('Request settings have not been set up')\<close>\<close>
  | TypeError                \<comment> \<open>reading \<open>content\<close> of \<open>undefined\<close>\<close>

text \<open>\<open>messages[messages.length - 1]\<close>: \<open>undefined\<close> for an empty history.\<close>

definition latest :: "MessageContent list \<Rightarrow> MessageContent option" where
  "latest messages = (if messages = [] then None else Some (last messages))"

text \<open>
  \<^verbatim>\<open>private preprocessBody(body: OpenAIImagesConfig, messages: MessageContent[]) {
    const bodyCopy = JSON.parse(JSON.stringify(body));
    if (messages[messages.length - 1].content.trim() !== '') {
      const mostRecentMessageText = messages[messages.length - 1].content;
      const processedMessage = mostRecentMessageText.substring(0, this._maxCharLength);
      bodyCopy.prompt = processedMessage;
    }
    return bodyCopy;
  }\<close>
  The copy is a new object of the store with the same properties.
\<close>

definition preprocessBody ::
  "OpenAIImagesIO \<Rightarrow> store \<Rightarrow> addr \<Rightarrow> MessageContent list \<Rightarrow> (error + addr) \<times> store" where
  "preprocessBody this s body messages =
     (let (bodyCopy, s1) = alloc s (s ! body)
      in case latest messages of
           None \<Rightarrow> (Inl TypeError, s1)
         | Some m \<Rightarrow>
             if trim (content m) \<noteq> [] then
               let mostRecentMessageText = content m;
                   processedMessage = substring0 mostRecentMessageText (maxCharLength this)
               in (Inr bodyCopy,
                   s1[bodyCopy := (s1 ! bodyCopy)
                        \<lparr>cfg_body := set_prop (js ''prompt'') (JString processedMessage)
                                       (cfg_body (s1 ! bodyCopy))\<rparr>])
             else (Inr bodyCopy, s1))"

text \<open>
  What is handed to the request executor \<open>HTTPRequest.request\<close>: the adapter as it is at
  that moment (the executor reads its \<open>url\<close> and \<open>requestSettings\<close>) and the body, a JSON
  object of the store or a multipart form.
\<close>

datatype Body = JsonBody addr | FormBody FormData

record Dispatch =
  d_io :: OpenAIImagesIO
  d_body :: Body

text \<open>\<open>this.requestSettings.url || DEFAULT\<close>\<close>

definition url_or :: "RequestSettings \<Rightarrow> jsstring \<Rightarrow> jsstring" where
  "url_or rs dflt = (if truthy_str (rs_url rs) then the (rs_url rs) else dflt)"

text \<open>
  \<^verbatim>\<open>private callApiWithImage(messages: Messages, completionsHandlers: CompletionsHandlers, files: File[]) {
    let formData: FormData;
    // if there is a mask image or text, call edit
    if (files[1] || messages.messages[messages.messages.length - 1].content.trim() !== '') {
      this.url = this.requestSettings.url || OpenAIImagesIO.IMAGE_EDIT_URL;
      const body = this.preprocessBody(this._raw_body, messages.messages);
      formData = OpenAIImagesIO.createFormDataBody(body, files[0], files[1]);
    } else {
      this.url = this.requestSettings.url || OpenAIImagesIO.IMAGE_VARIATIONS_URL;
      formData = OpenAIImagesIO.createFormDataBody(this._raw_body, files[0]);
    }
    RequestHeaderUtils.temporarilyRemoveContentType(this.requestSettings,
      HTTPRequest.request.bind(this, this, formData, messages, completionsHandlers.onFinish), false);
  }\<close>
  The result is the outcome of the call together with the adapter and the store as the
  call leaves them, also when it throws.
\<close>

definition callApiWithImage ::
  "OpenAIImagesIO \<Rightarrow> store \<Rightarrow> MessageContent list \<Rightarrow> File list \<Rightarrow>
     (error + Dispatch) \<times> OpenAIImagesIO \<times> store" where
  "callApiWithImage this s messages files =
     (if nth_opt files 1 = None \<and> latest messages = None then (Inl TypeError, this, s)
      else if nth_opt files 1 \<noteq> None \<or> trim (content (the (latest messages))) \<noteq> [] then
        let this1 = this\<lparr>url := url_or (requestSettings this) IMAGE_EDIT_URL\<rparr>;
            (r, s1) = preprocessBody this1 s (raw_body this1) messages
        in case r of
             Inl e \<Rightarrow> (Inl e, this1, s1)
           | Inr body \<Rightarrow>
               (Inr \<lparr>d_io = this1,
                     d_body = FormBody (createFormDataBody s1 body (nth_opt files 0) (nth_opt files 1))\<rparr>,
                this1, s1)
      else
        let this1 = this\<lparr>url := url_or (requestSettings this) IMAGE_VARIATIONS_URL\<rparr>
        in (Inr \<lparr>d_io = this1,
                  d_body = FormBody (createFormDataBody s (raw_body this1) (nth_opt files 0) None)\<rparr>,
            this1, s))"

text \<open>
  \<^verbatim>\<open>callApi(messages: Messages, completionsHandlers: CompletionsHandlers, _: StreamHandlers, files?: File[]) {
    if (!this.requestSettings?.headers) throw new Error('Request settings have not been set up');
    if (files?.[0]) {
      this.callApiWithImage(messages, completionsHandlers, files);
    } else {
      if (!this.requestSettings) throw new Error('Request settings have not been set up');
      this.url = this.requestSettings.url || OpenAIImagesIO.IMAGE_GENERATION_URL;
      const body = this.preprocessBody(this._raw_body, messages.messages);
      HTTPRequest.request(this, body, messages, completionsHandlers.onFinish);
    }
  }\<close>
\<close>

definition has_first :: "File list option \<Rightarrow> bool" where
  "has_first files = (case files of None \<Rightarrow> False | Some fs \<Rightarrow> nth_opt fs 0 \<noteq> None)"

definition callApi ::
  "OpenAIImagesIO \<Rightarrow> store \<Rightarrow> MessageContent list \<Rightarrow> File list option \<Rightarrow>
     (error + Dispatch) \<times> OpenAIImagesIO \<times> store" where
  "callApi this s messages files =
     (if rs_headers (requestSettings this) = None then (Inl RequestSettingsNotSetUp, this, s)
      else if has_first files then callApiWithImage this s messages (the files)
      else
        let this1 = this\<lparr>url := url_or (requestSettings this) IMAGE_GENERATION_URL\<rparr>;
            (r, s1) = preprocessBody this1 s (raw_body this1) messages
        in case r of
             Inl e \<Rightarrow> (Inl e, this1, s1)
           | Inr body \<Rightarrow> (Inr \<lparr>d_io = this1, d_body = JsonBody body\<rparr>, this1, s1))"

section \<open>Normalising the response\<close>

text \<open>
  The decoded response \<open>OpenAIImageResult\<close>: the source reads \<open>error\<close>, \<open>error.message\<close>,
  \<open>data\<close> and, of each entry, \<open>url\<close> and \<open>b64_json\<close>.
\<close>

record ImageData =
  id_url :: "jsstring option"
  b64_json :: "jsstring option"

record ErrorObject =
  message :: jsstring

record OpenAIImageResult =
  data :: "ImageData list"
  error :: "ErrorObject option"

text \<open>
  An element of the returned array: the entry itself, with the properties it has, or a
  new object with the one property \<open>base64\<close>.
\<close>

record ImageResult =
  ir_url :: "jsstring option"
  ir_b64_json :: "jsstring option"
  ir_base64 :: "jsstring option"

text \<open>
  \<^verbatim>\<open>extractResultData(result: OpenAIImageResult): ImageResults {
    if (result.error) throw result.error.message;
    return result.data.map((imageData) => {
      if (imageData.url) return imageData;
      return {base64: `${BASE_64_PREFIX}${imageData.b64_json}`};
    }) as ImageResults;
  }\<close>
  The thrown value is the message string itself.
\<close>

definition extract_one :: "externals \<Rightarrow> ImageData \<Rightarrow> ImageResult" where
  "extract_one ext imageData =
     (if truthy_str (id_url imageData)
      then \<lparr>ir_url = id_url imageData, ir_b64_json = b64_json imageData, ir_base64 = None\<rparr>
      else \<lparr>ir_url = None, ir_b64_json = None,
            ir_base64 = Some (BASE_64_PREFIX ext
                               @ (case b64_json imageData of
                                    None \<Rightarrow> js ''undefined''
                                  | Some p \<Rightarrow> p))\<rparr>)"

definition extractResultData :: "externals \<Rightarrow> OpenAIImageResult \<Rightarrow> jsstring + ImageResult list" where
  "extractResultData ext result =
     (case error result of
        Some e \<Rightarrow> Inl (message e)
      | None \<Rightarrow> Inr (map (extract_one ext) (data result)))"

section \<open>Notions used in the statements\<close>

text \<open>
  The operation table of the specification: no file is a generation; one file is a
  variation when the trimmed text is empty and an edit otherwise; two files are an edit.
\<close>

datatype operation = Generation | Edit | Variation

definition spec_operation :: "jsstring \<Rightarrow> nat \<Rightarrow> operation" where
  "spec_operation text n =
     (if n = 0 then Generation
      else if n = 1 then (if trim text = [] then Variation else Edit)
      else Edit)"

fun endpoint :: "operation \<Rightarrow> jsstring" where
  "endpoint Generation = IMAGE_GENERATION_URL"
| "endpoint Edit = IMAGE_EDIT_URL"
| "endpoint Variation = IMAGE_VARIATIONS_URL"

text \<open>The binary parts of a multipart form: its file-valued entries, in order.\<close>

fun binary_parts :: "FormData \<Rightarrow> (jsstring \<times> File) list" where
  "binary_parts [] = []"
| "binary_parts ((name, Blob f) # es) = (name, f) # binary_parts es"
| "binary_parts ((name, Text v) # es) = binary_parts es"

definition file_list :: "File list option \<Rightarrow> File list" where
  "file_list files = (case files of None \<Rightarrow> [] | Some fs \<Rightarrow> fs)"

text \<open>The value of a property of a body object, \<open>None\<close> when it is absent.\<close>

definition get_prop :: "jobject \<Rightarrow> jsstring \<Rightarrow> jscalar option" where
  "get_prop obj k = map_of obj k"

text \<open>
  The content of an adapter: its fields, with the raw body template read from the store.
\<close>

definition resolved_config ::
  "OpenAIImagesIO \<times> store \<Rightarrow>
     jsstring \<times> (jsstring \<Rightarrow> File list option \<Rightarrow> bool) \<times> Images \<times> int \<times> RequestSettings \<times> Config" where
  "resolved_config st =
     (url (fst st), io_canSendMessage (fst st), images (fst st), maxCharLength (fst st),
      requestSettings (fst st), snd st ! raw_body (fst st))"

text \<open>The caller's configuration by content: the object it refers to, if any.\<close>

definition config_content :: "store \<Rightarrow> completions \<Rightarrow> Config option" where
  "config_content s config = (case config of Object c \<Rightarrow> Some (s ! c) | _ \<Rightarrow> None)"

text \<open>
  Sample values of what the imported modules provide, for the examples: the character
  limit, the data-URI prefix, a renderer, and a bearer header.
\<close>

definition sample_externals :: externals where
  "sample_externals =
     \<lparr>IMAGES_MAX_CHAR_LENGTH = 1000,
      BASE_64_PREFIX = js ''data:image/png;base64,'',
      render = (\<lambda>markdown. js ''<p>'' @ markdown @ js ''</p>''),
      authHeader = (\<lambda>key. (js ''Authorization'', js ''Bearer '' @ key))\<rparr>"

text \<open>Handlers that record their invocation and the request settings they see.\<close>

datatype handler_call =
    Loading RequestSettings
  | Succeeded jsstring RequestSettings
  | Failed jsstring RequestSettings

definition recording_handlers :: "handler_call list KeyVerificationHandlers" where
  "recording_handlers =
     \<lparr>onSuccess = (\<lambda>key this log. log @ [Succeeded key (requestSettings this)]),
      onFail = (\<lambda>err this log. log @ [Failed err (requestSettings this)]),
      onLoad = (\<lambda>this log. log @ [Loading (requestSettings this)])\<rparr>"

text \<open>
  A caller's configuration object with a files policy, request settings and two body
  fields; an assistant that refers to it at address 0; the template it leaves; an adapter
  as the field initialisers make it, and the same adapter with headers set up.
\<close>

definition sample_config :: Config where
  "sample_config =
     \<lparr>cfg_files = Some \<lparr>acceptedFormats = Some (js ''.jpg''), maxNumberOfFiles = None,
                         infoModal = None\<rparr>,
      cfg_request = Some \<lparr>rs_url = Some (js ''https://proxy.example/images''),
                           rs_headers = Some [js ''X-Org'' \<mapsto> js ''acme'']\<rparr>,
      cfg_body = [(js ''n'', JNumber 2), (js ''size'', JString (js ''256x256''))]\<rparr>"

definition sample_assistant :: AiAssistant where
  "sample_assistant =
     \<lparr>openAI_completions = Object 0, inputCharacterLimit = None,
      validateMessageBeforeSending = None\<rparr>"

definition sample_template :: Config where
  "sample_template =
     \<lparr>cfg_files = None, cfg_request = None,
      cfg_body = [(js ''n'', JNumber 2), (js ''size'', JString (js ''256x256''))]\<rparr>"

definition sample_adapter :: OpenAIImagesIO where
  "sample_adapter =
     \<lparr>url = [], io_canSendMessage = canSendMessage, images = default_images,
      maxCharLength = 1000, requestSettings = empty_settings, raw_body = 0\<rparr>"

definition ready_adapter :: OpenAIImagesIO where
  "ready_adapter =
     sample_adapter\<lparr>requestSettings := \<lparr>rs_url = None, rs_headers = Some Map.empty\<rparr>\<rparr>"

definition user_says :: "string \<Rightarrow> MessageContent" where
  "user_says words = \<lparr>role = js ''user'', content = js words\<rparr>"

section \<open>Properties\<close>

subsection \<open>Strings and lists\<close>

lemma js_simps: "js [] = []" "js (c # cs) = word_of_nat (of_char c) # js cs"
  by (simp_all add: js_def)

lemma all_dropWhile: "(\<forall>x \<in> set (dropWhile P s). P x) \<longleftrightarrow> (\<forall>x \<in> set s. P x)"
  by (induction s) auto

lemma trim_empty_iff: "trim s = [] \<longleftrightarrow> (\<forall>c \<in> set s. is_ws c)"
  by (simp add: trim_def all_dropWhile)

lemma nth_opt_eq: "nth_opt fs i = (if i < length fs then Some (fs ! i) else None)"
  by (induction fs i rule: nth_opt.induct) simp_all

subsection \<open>Send eligibility\<close>

text \<open>
  C6.  The default send-eligibility predicate is a function of its two arguments alone,
  and it is true exactly when a first file is attached or the text has a code unit that
  is not white space, which is when its trimmed form is not empty.  In particular it is
  false for the empty text with no file, true for \<open>hello\<close> with no file, and true for the
  empty text with a file.
\<close>

theorem canSendMessage_iff:
  "(canSendMessage text files \<longleftrightarrow>
      (\<exists>f fs. files = Some (f # fs)) \<or> (\<exists>c \<in> set text. \<not> is_ws c))
   \<and> (canSendMessage text files \<longleftrightarrow> file_list files \<noteq> [] \<or> trim text \<noteq> [])
   \<and> \<not> canSendMessage (js []) (Some [])
   \<and> canSendMessage (js ''hello'') (Some [])
   \<and> canSendMessage (js []) (Some [file])"
proof -
  have general: "canSendMessage text files \<longleftrightarrow> file_list files \<noteq> [] \<or> trim text \<noteq> []"
    by (cases files) (auto simp: canSendMessage_def file_list_def nth_opt_eq)
  have attached: "file_list files \<noteq> [] \<longleftrightarrow> (\<exists>f fs. files = Some (f # fs))"
    by (cases files) (simp_all add: file_list_def neq_Nil_conv)
  have nonblank: "trim text \<noteq> [] \<longleftrightarrow> (\<exists>c \<in> set text. \<not> is_ws c)"
    by (simp add: trim_empty_iff)
  have hello: "trim (js ''hello'') \<noteq> []"
    by (simp add: trim_def js_simps is_ws_def ws_units_def)
  have empty: "trim (js []) = []"
    by (simp add: trim_def js_simps)
  show ?thesis
    using general attached nonblank hello empty
    by (simp add: canSendMessage_def nth_opt_eq)
qed

theorem canSendMessage_iff_witness:
  "canSendMessage (js '' a '') None \<and> \<not> canSendMessage (js ''  '') None"
  using canSendMessage_iff [of "js '' a ''" None] canSendMessage_iff [of "js ''  ''" None]
  by (simp add: js_simps is_ws_def ws_units_def)

subsection \<open>Normalising the response\<close>

text \<open>
  C3.  For a response without an error object, the normaliser returns one result per
  entry of \<open>data\<close>, in the order of \<open>data\<close>.  An entry with a non-empty \<open>url\<close> is returned
  as it is, so the result carries that \<open>url\<close> and no \<open>base64\<close>.  Any other entry gives a
  result with the one property \<open>base64\<close>, which for an entry with a \<open>b64_json\<close> payload
  is the prefix followed by the payload.
\<close>

theorem extractResultData_images:
  assumes "error result = None"
  shows "\<exists>out. extractResultData ext result = Inr out
           \<and> length out = length (data result)
           \<and> (\<forall>i < length (data result).
                 (truthy_str (id_url (data result ! i)) \<longrightarrow>
                    ir_url (out ! i) = id_url (data result ! i)
                    \<and> ir_b64_json (out ! i) = b64_json (data result ! i)
                    \<and> ir_base64 (out ! i) = None)
               \<and> (\<not> truthy_str (id_url (data result ! i)) \<longrightarrow>
                    ir_url (out ! i) = None \<and> ir_b64_json (out ! i) = None
                    \<and> (\<forall>p. b64_json (data result ! i) = Some p \<longrightarrow>
                          ir_base64 (out ! i) = Some (BASE_64_PREFIX ext @ p))))"
  using assms by (simp add: extractResultData_def extract_one_def)

theorem extractResultData_images_witness:
  "error \<lparr>data = [\<lparr>id_url = Some (js ''http://x''), b64_json = None\<rparr>,
                   \<lparr>id_url = None, b64_json = Some (js ''AAA'')\<rparr>],
          error = None\<rparr> = None
   \<and> extractResultData sample_externals
        \<lparr>data = [\<lparr>id_url = Some (js ''http://x''), b64_json = None\<rparr>,
                 \<lparr>id_url = None, b64_json = Some (js ''AAA'')\<rparr>],
         error = None\<rparr>
      = Inr [\<lparr>ir_url = Some (js ''http://x''), ir_b64_json = None, ir_base64 = None\<rparr>,
             \<lparr>ir_url = None, ir_b64_json = None,
              ir_base64 = Some (js ''data:image/png;base64,AAA'')\<rparr>]"
  using extractResultData_images
          [of "\<lparr>data = [\<lparr>id_url = Some (js ''http://x''), b64_json = None\<rparr>,
                         \<lparr>id_url = None, b64_json = Some (js ''AAA'')\<rparr>],
                 error = None\<rparr>" sample_externals]
  by (simp add: extractResultData_def extract_one_def sample_externals_def js_simps)

text \<open>
  C4.  For a response with an error object, the normaliser throws the message of that
  object, the string itself, and returns no results; it throws in no other case.
\<close>

theorem extractResultData_error:
  "(\<forall>e. error result = Some e \<longrightarrow> extractResultData ext result = Inl (message e))
   \<and> ((\<exists>thrown. extractResultData ext result = Inl thrown) \<longleftrightarrow> error result \<noteq> None)"
  by (cases "error result") (simp_all add: extractResultData_def)

theorem extractResultData_error_witness:
  "extractResultData sample_externals
     \<lparr>data = [], error = Some \<lparr>message = js ''bad key''\<rparr>\<rparr> = Inl (js ''bad key'')"
  using extractResultData_error
          [of "\<lparr>data = [], error = Some \<lparr>message = js ''bad key''\<rparr>\<rparr>" sample_externals]
  by simp

subsection \<open>Construction\<close>

lemma new_requestSettings:
  "requestSettings (fst (new_OpenAIImagesIO ext s ai key)) =
     (if truthy_str key
      then buildRequestSettings ext (the key) (config_request (s @ [empty_object]) (openAI_completions ai))
      else empty_settings)"
  by (simp add: new_OpenAIImagesIO_def alloc_def Let_def split: completions.splits option.splits)

lemma new_store:
  "snd (new_OpenAIImagesIO ext s ai key) =
     (case openAI_completions ai of
        Object c \<Rightarrow> cleanConfig (s @ [empty_object]) c
      | _ \<Rightarrow> s @ [empty_object])"
  by (simp add: new_OpenAIImagesIO_def alloc_def Let_def split: completions.splits option.splits)

lemma new_raw_body:
  "raw_body (fst (new_OpenAIImagesIO ext s ai key)) =
     (case openAI_completions ai of Object c \<Rightarrow> c | _ \<Rightarrow> length s)"
  by (simp add: new_OpenAIImagesIO_def alloc_def Let_def split: completions.splits option.splits)

lemma new_raw_body_valid:
  assumes "\<forall>c. openAI_completions ai = Object c \<longrightarrow> c < length s"
  shows "raw_body (fst (new_OpenAIImagesIO ext s ai key))
           < length (snd (new_OpenAIImagesIO ext s ai key))"
  using assms
  by (cases "openAI_completions ai") (simp_all add: new_raw_body new_store cleanConfig_def)

lemma new_images:
  "images (fst (new_OpenAIImagesIO ext s ai key)) =
     (case openAI_completions ai of
        Object c \<Rightarrow> (case cfg_files ((s @ [empty_object]) ! c) of
                       None \<Rightarrow> default_images
                     | Some fa \<Rightarrow> processImagesConfig ext fa default_images)
      | _ \<Rightarrow> default_images\<lparr>infoModalTextMarkUp := Some (render ext MODAL_MARKDOWN)\<rparr>)"
  by (simp add: new_OpenAIImagesIO_def alloc_def Let_def default_images_def split: completions.splits option.splits)

lemma new_maxCharLength:
  "maxCharLength (fst (new_OpenAIImagesIO ext s ai key)) =
     (if truthy_num (inputCharacterLimit ai) then the (inputCharacterLimit ai)
      else IMAGES_MAX_CHAR_LENGTH ext)"
  by (simp add: new_OpenAIImagesIO_def alloc_def Let_def split: completions.splits option.splits)

lemma new_canSendMessage:
  "io_canSendMessage (fst (new_OpenAIImagesIO ext s ai key)) =
     (case validateMessageBeforeSending ai of None \<Rightarrow> canSendMessage | Some v \<Rightarrow> v)"
  by (simp add: new_OpenAIImagesIO_def alloc_def Let_def split: completions.splits option.splits)

lemma new_url:
  "url (fst (new_OpenAIImagesIO ext s ai key)) = []"
  by (simp add: new_OpenAIImagesIO_def alloc_def Let_def split: completions.splits option.splits)

text \<open>
  C10.  When the constructor gets no key (or the empty string), the request settings of
  the adapter are the empty object, whatever request settings the caller's configuration
  has; and the constructor deletes \<open>request\<close> from the caller's configuration object, so
  they are not read later either.
\<close>

theorem constructor_without_key:
  assumes "\<not> truthy_str key"
  shows "requestSettings (fst (new_OpenAIImagesIO ext s aiAssistant key)) = empty_settings
     \<and> (\<forall>c. openAI_completions aiAssistant = Object c \<longrightarrow> c < length s \<longrightarrow>
            cfg_request (snd (new_OpenAIImagesIO ext s aiAssistant key) ! c) = None)"
  using assms by (simp add: new_requestSettings new_store cleanConfig_def)

theorem constructor_without_key_witness:
  "\<not> truthy_str None
   \<and> cfg_request ([sample_config] ! 0)
       = Some \<lparr>rs_url = Some (js ''https://proxy.example/images''),
               rs_headers = Some [js ''X-Org'' \<mapsto> js ''acme'']\<rparr>
   \<and> requestSettings (fst (new_OpenAIImagesIO sample_externals [sample_config] sample_assistant None))
       = empty_settings
   \<and> cfg_request (snd (new_OpenAIImagesIO sample_externals [sample_config] sample_assistant None) ! 0) = None"
  using constructor_without_key [of None sample_externals "[sample_config]" sample_assistant]
  by (simp add: sample_assistant_def sample_config_def)

text \<open>
  C8 (as amended).  When the caller's configuration object has a files policy, the
  adapter's accepted formats are the policy's value if that is a non-empty string, and
  \<open>.png\<close> otherwise; its maximum number of files is the policy's value if that is a
  number other than 0, and 2 otherwise.
\<close>

theorem files_policy_override:
  assumes "openAI_completions aiAssistant = Object c" and "c < length s"
    and "cfg_files (s ! c) = Some fa"
  shows "\<exists>f. img_files (images (fst (new_OpenAIImagesIO ext s aiAssistant key))) = Some f
     \<and> acceptedFormats f =
         (if truthy_str (acceptedFormats fa) then acceptedFormats fa else Some (js ''.png''))
     \<and> maxNumberOfFiles f =
         (if truthy_num (maxNumberOfFiles fa) then maxNumberOfFiles fa else Some 2)"
  using assms
  by (simp add: new_images nth_append processImagesConfig_def default_images_def Let_def)

theorem files_policy_override_witness:
  "openAI_completions sample_assistant = Object 0 \<and> 0 < length [sample_config]
   \<and> cfg_files ([sample_config] ! 0)
       = Some \<lparr>acceptedFormats = Some (js ''.jpg''), maxNumberOfFiles = None, infoModal = None\<rparr>
   \<and> (\<exists>f. img_files (images (fst
              (new_OpenAIImagesIO sample_externals [sample_config] sample_assistant None))) = Some f
          \<and> acceptedFormats f = Some (js ''.jpg'') \<and> maxNumberOfFiles f = Some 2)"
  using files_policy_override
          [of sample_assistant 0 "[sample_config]"
              "\<lparr>acceptedFormats = Some (js ''.jpg''), maxNumberOfFiles = None, infoModal = None\<rparr>"
              sample_externals None]
  by (simp add: sample_assistant_def sample_config_def js_simps)

text \<open>
  The claim as stated fails for a policy that provides the maximum 0: the value is
  provided and the default 2 remains.
\<close>

theorem files_policy_counterexample:
  "maxNumberOfFiles (the (cfg_files
      ([sample_config\<lparr>cfg_files := Some \<lparr>acceptedFormats = None, maxNumberOfFiles = Some 0,
                                           infoModal = None\<rparr>\<rparr>] ! 0))) = Some 0
   \<and> maxNumberOfFiles (the (img_files (images (fst
        (new_OpenAIImagesIO sample_externals
           [sample_config\<lparr>cfg_files := Some \<lparr>acceptedFormats = None, maxNumberOfFiles = Some 0,
                                               infoModal = None\<rparr>\<rparr>]
           sample_assistant None))))) = Some 2"
  by (simp add: new_images sample_assistant_def sample_config_def processImagesConfig_def
        default_images_def Let_def)

subsection \<open>Requests\<close>

lemma get_prop_set_prop:
  "get_prop (set_prop k v obj) k' = (if k' = k then Some v else get_prop obj k')"
  by (induction obj) (auto simp: get_prop_def)

lemma preprocessBody_eq:
  "preprocessBody this s body messages =
     (case latest messages of
        None \<Rightarrow> (Inl TypeError, s @ [s ! body])
      | Some m \<Rightarrow>
          (Inr (length s),
           s @ [if trim (content m) \<noteq> []
                then (s ! body)\<lparr>cfg_body := set_prop (js ''prompt'')
                        (JString (take (nat (maxCharLength this)) (content m))) (cfg_body (s ! body))\<rparr>
                else s ! body]))"
  by (simp add: preprocessBody_def alloc_def substring0_def Let_def split: option.splits)

lemma binary_parts_text [simp]:
  "binary_parts (map (\<lambda>(key, v). (key, Text (String v))) obj) = []"
  by (induction obj) auto

lemma binary_parts_form:
  "binary_parts (createFormDataBody s body (Some f) mask_file) =
     (js ''image'', f) # (case mask_file of None \<Rightarrow> [] | Some m \<Rightarrow> [(js ''mask'', m)])"
  by (simp add: createFormDataBody_def split: option.splits)

lemma callApi_cases:
  "callApi this s messages files =
     (if rs_headers (requestSettings this) = None then (Inl RequestSettingsNotSetUp, this, s)
      else if file_list files = [] then
        (case latest messages of
           None \<Rightarrow> (Inl TypeError, this\<lparr>url := url_or (requestSettings this) IMAGE_GENERATION_URL\<rparr>,
                     snd (preprocessBody this s (raw_body this) messages))
         | Some m \<Rightarrow>
             (Inr \<lparr>d_io = this\<lparr>url := url_or (requestSettings this) IMAGE_GENERATION_URL\<rparr>,
                   d_body = JsonBody (length s)\<rparr>,
              this\<lparr>url := url_or (requestSettings this) IMAGE_GENERATION_URL\<rparr>,
              snd (preprocessBody this s (raw_body this) messages)))
      else callApiWithImage this s messages (file_list files))"
  by (cases files)
     (auto simp: callApi_def has_first_def file_list_def nth_opt_eq preprocessBody_eq Let_def
           split: option.splits)

lemma callApiWithImage_cases:
  "callApiWithImage this s messages files =
     (case latest messages of
        None \<Rightarrow>
          if nth_opt files 1 = None then (Inl TypeError, this, s)
          else (Inl TypeError, this\<lparr>url := url_or (requestSettings this) IMAGE_EDIT_URL\<rparr>,
                s @ [s ! raw_body this])
      | Some m \<Rightarrow>
          if nth_opt files 1 \<noteq> None \<or> trim (content m) \<noteq> [] then
            (Inr \<lparr>d_io = this\<lparr>url := url_or (requestSettings this) IMAGE_EDIT_URL\<rparr>,
                  d_body = FormBody (createFormDataBody
                     (snd (preprocessBody this s (raw_body this) messages)) (length s)
                     (nth_opt files 0) (nth_opt files 1))\<rparr>,
             this\<lparr>url := url_or (requestSettings this) IMAGE_EDIT_URL\<rparr>,
             snd (preprocessBody this s (raw_body this) messages))
          else
            (Inr \<lparr>d_io = this\<lparr>url := url_or (requestSettings this) IMAGE_VARIATIONS_URL\<rparr>,
                  d_body = FormBody (createFormDataBody s (raw_body this) (nth_opt files 0) None)\<rparr>,
             this\<lparr>url := url_or (requestSettings this) IMAGE_VARIATIONS_URL\<rparr>, s))"
  by (auto simp: callApiWithImage_def preprocessBody_eq Let_def split: option.splits)

lemma preprocessBody_store:
  "\<exists>obj. snd (preprocessBody this s body messages) = s @ [obj]"
  by (simp add: preprocessBody_eq split: option.splits)

lemma callApi_store:
  "\<exists>new. snd (snd (callApi this s messages files)) = s @ new"
  using preprocessBody_store [of this s "raw_body this" messages]
  by (auto simp: callApi_cases callApiWithImage_cases split: option.splits)

lemma callApi_this:
  "(fst (snd (callApi this s messages files)))\<lparr>url := u\<rparr> = this\<lparr>url := u\<rparr>"
  by (auto simp: callApi_cases callApiWithImage_cases split: option.splits)

lemma callApi_dispatch:
  assumes "callApi this s messages files = (Inr d, this', s')"
  shows "d_io d = this'"
  using assms
  by (auto simp: callApi_cases callApiWithImage_cases split: option.splits if_splits)

text \<open>
  C7.  A send call leaves the raw body template as it was, whatever its outcome: the
  adapter refers to the same object, that object has the same content, and so has every
  other object that was in the store; the call only adds objects.
\<close>

theorem callApi_raw_body_unchanged:
  assumes "raw_body this < length s"
  shows "raw_body (fst (snd (callApi this s messages files))) = raw_body this
     \<and> snd (snd (callApi this s messages files)) ! raw_body this = s ! raw_body this
     \<and> take (length s) (snd (snd (callApi this s messages files))) = s"
proof -
  obtain new where st: "snd (snd (callApi this s messages files)) = s @ new"
    using callApi_store by blast
  have "raw_body ((fst (snd (callApi this s messages files)))\<lparr>url := []\<rparr>)
          = raw_body (this\<lparr>url := []\<rparr>)"
    by (simp only: callApi_this)
  then have th: "raw_body (fst (snd (callApi this s messages files))) = raw_body this"
    by simp
  show ?thesis using assms by (simp add: st th nth_append)
qed

theorem callApi_raw_body_unchanged_witness:
  "raw_body ready_adapter < length [sample_template]
   \<and> snd (snd (callApi ready_adapter [sample_template] [user_says ''a cat''] None))
       = [sample_template,
          sample_template\<lparr>cfg_body :=
            [(js ''n'', JNumber 2), (js ''size'', JString (js ''256x256'')),
             (js ''prompt'', JString (js ''a cat''))]\<rparr>]
   \<and> snd (snd (callApi ready_adapter [sample_template] [user_says ''a cat''] None))
         ! raw_body ready_adapter = sample_template"
  using callApi_raw_body_unchanged
          [of ready_adapter "[sample_template]" "[user_says ''a cat'']" None]
  by (simp add: ready_adapter_def sample_adapter_def sample_template_def user_says_def
        callApi_cases file_list_def latest_def preprocessBody_eq js_simps trim_def
        is_ws_def ws_units_def)


subsection \<open>Key verification\<close>

lemma callApi_settings:
  "requestSettings (fst (snd (callApi this s messages files))) = requestSettings this"
proof -
  have "requestSettings ((fst (snd (callApi this s messages files)))\<lparr>url := []\<rparr>)
          = requestSettings (this\<lparr>url := []\<rparr>)"
    by (simp only: callApi_this)
  then show ?thesis by simp
qed

lemma buildRequestSettings_header:
  "\<exists>hs. rs_headers (buildRequestSettings ext key rs) = Some hs
        \<and> hs (fst (authHeader ext key)) = Some (snd (authHeader ext key))"
  by (simp add: buildRequestSettings_def)

text \<open>
  C5.  When the service accepts the key, the adapter's request settings become the prior
  settings with the key merged in as the authentication header, and the success handler
  is invoked with the key after that, on the adapter that already has the header; every
  later send call passes the settings check and hands the executor an adapter whose
  settings carry the header.  When the service rejects the key, the failure handler is
  invoked with the error and the adapter, request settings included, is as before.
\<close>

theorem verifyKey_outcomes:
  "verifyKey ext key Verified handlers (this, c) =
     (this\<lparr>requestSettings := buildRequestSettings ext key (requestSettings this)\<rparr>,
      onSuccess handlers key
        (this\<lparr>requestSettings := buildRequestSettings ext key (requestSettings this)\<rparr>)
        (onLoad handlers this c))
   \<and> (\<exists>hs. rs_headers (requestSettings (fst (verifyKey ext key Verified handlers (this, c))))
               = Some hs
          \<and> hs (fst (authHeader ext key)) = Some (snd (authHeader ext key)))
   \<and> (\<forall>s messages files.
         fst (callApi (fst (verifyKey ext key Verified handlers (this, c))) s messages files)
           \<noteq> Inl RequestSettingsNotSetUp
         \<and> (\<forall>d this' s'.
               callApi (fst (verifyKey ext key Verified handlers (this, c))) s messages files
                 = (Inr d, this', s') \<longrightarrow>
               (\<exists>hs. rs_headers (requestSettings (d_io d)) = Some hs
                  \<and> hs (fst (authHeader ext key)) = Some (snd (authHeader ext key)))))
   \<and> verifyKey ext key (Rejected err) handlers (this, c)
       = (this, onFail handlers err this (onLoad handlers this c))"
proof -
  let ?this' = "this\<lparr>requestSettings := buildRequestSettings ext key (requestSettings this)\<rparr>"
  have ok: "verifyKey ext key Verified handlers (this, c) =
              (?this', onSuccess handlers key ?this' (onLoad handlers this c))"
    by (simp add: verifyKey_def OpenAIUtils_verifyKey_def addKey_def Let_def)
  have bad: "verifyKey ext key (Rejected err) handlers (this, c)
               = (this, onFail handlers err this (onLoad handlers this c))"
    by (simp add: verifyKey_def OpenAIUtils_verifyKey_def)
  obtain hs where hs: "rs_headers (requestSettings ?this') = Some hs"
      "hs (fst (authHeader ext key)) = Some (snd (authHeader ext key))"
    using buildRequestSettings_header [of ext key "requestSettings this"] by auto
  have guard: "fst (callApi ?this' s messages files) \<noteq> Inl RequestSettingsNotSetUp"
    for s messages files
    using hs(1)
    by (auto simp: callApi_cases callApiWithImage_cases split: option.splits)
  have carried: "\<exists>hs. rs_headers (requestSettings (d_io d)) = Some hs
                   \<and> hs (fst (authHeader ext key)) = Some (snd (authHeader ext key))"
    if "callApi ?this' s messages files = (Inr d, this'', s')" for s messages files d this'' s'
  proof -
    have "d_io d = this''" using that by (rule callApi_dispatch)
    moreover have "requestSettings this'' = requestSettings ?this'"
      using callApi_settings [of ?this' s messages files] that by simp
    ultimately show ?thesis using hs by simp
  qed
  show ?thesis
    unfolding ok fst_conv using hs guard carried bad by blast
qed

theorem verifyKey_outcomes_witness:
  "verifyKey sample_externals (js ''sk-1'') Verified recording_handlers (sample_adapter, [])
     = (sample_adapter\<lparr>requestSettings :=
           \<lparr>rs_url = None, rs_headers = Some [js ''Authorization'' \<mapsto> js ''Bearer sk-1'']\<rparr>\<rparr>,
        [Loading empty_settings,
         Succeeded (js ''sk-1'')
           \<lparr>rs_url = None, rs_headers = Some [js ''Authorization'' \<mapsto> js ''Bearer sk-1'']\<rparr>])
   \<and> fst (callApi
          (fst (verifyKey sample_externals (js ''sk-1'') Verified recording_handlers
                  (sample_adapter, [])))
          [sample_template] [user_says ''a cat''] None)
     = Inr \<lparr>d_io = sample_adapter
                    \<lparr>url := IMAGE_GENERATION_URL,
                     requestSettings :=
                       \<lparr>rs_url = None,
                        rs_headers = Some [js ''Authorization'' \<mapsto> js ''Bearer sk-1'']\<rparr>\<rparr>,
             d_body = JsonBody 1\<rparr>
   \<and> verifyKey sample_externals (js ''sk-1'') (Rejected (js ''bad key'')) recording_handlers
        (sample_adapter, [])
     = (sample_adapter, [Loading empty_settings, Failed (js ''bad key'') empty_settings])"
  using verifyKey_outcomes
          [of sample_externals "js ''sk-1''" recording_handlers sample_adapter "[]" "js ''bad key''"]
  by (simp add: recording_handlers_def sample_adapter_def sample_externals_def
        buildRequestSettings_def empty_settings_def js_simps callApi_cases file_list_def
        latest_def user_says_def url_or_def)



subsection \<open>The prompt\<close>

lemma latest_Some: "messages \<noteq> [] \<Longrightarrow> latest messages = Some (last messages)"
  by (simp add: latest_def)

text \<open>
  C2 (as amended).  For a history whose latest message has non-empty trimmed text, the
  body built is a new object whose \<open>prompt\<close> is the content of the latest message as it
  is, not trimmed, cut to its first \<open>_maxCharLength\<close> code units (none when that number is
  negative), and whose other properties are those of the template.  When the trimmed
  text is empty, the new object has exactly the properties of the template.
  \<open>_maxCharLength\<close> is the caller's \<open>inputCharacterLimit\<close> when that is a number other
  than 0, and the adapter's default otherwise.
\<close>

theorem preprocessBody_prompt:
  assumes "messages \<noteq> []"
  shows "\<exists>s'. preprocessBody this s body messages = (Inr (length s), s')
      \<and> length s' = Suc (length s)
      \<and> (trim (content (last messages)) \<noteq> [] \<longrightarrow>
            get_prop (cfg_body (s' ! length s)) (js ''prompt'')
              = Some (JString (take (nat (maxCharLength this)) (content (last messages))))
            \<and> (\<forall>k. k \<noteq> js ''prompt'' \<longrightarrow>
                   get_prop (cfg_body (s' ! length s)) k = get_prop (cfg_body (s ! body)) k)
            \<and> int (length (take (nat (maxCharLength this)) (content (last messages))))
                \<le> max 0 (maxCharLength this))
      \<and> (trim (content (last messages)) = [] \<longrightarrow> s' ! length s = s ! body)
      \<and> maxCharLength (fst (new_OpenAIImagesIO ext s0 aiAssistant key))
          = (if truthy_num (inputCharacterLimit aiAssistant)
             then the (inputCharacterLimit aiAssistant) else IMAGES_MAX_CHAR_LENGTH ext)"
proof -
  have bound: "int (length (take (nat (maxCharLength this)) (content (last messages))))
                 \<le> max 0 (maxCharLength this)"
    by (cases "0 \<le> maxCharLength this") simp_all
  show ?thesis
    using assms bound
    by (simp add: preprocessBody_eq latest_Some get_prop_set_prop new_maxCharLength
          del: length_take)
qed

theorem preprocessBody_prompt_witness:
  "[user_says ''  a cat  ''] \<noteq> []
   \<and> preprocessBody (sample_adapter\<lparr>maxCharLength := 5\<rparr>) [sample_template] 0 [user_says ''  a cat  '']
      = (Inr 1, [sample_template,
                 sample_template\<lparr>cfg_body :=
                   [(js ''n'', JNumber 2), (js ''size'', JString (js ''256x256'')),
                    (js ''prompt'', JString (js ''  a c''))]\<rparr>])
   \<and> preprocessBody sample_adapter [sample_template] 0 [user_says ''   '']
      = (Inr 1, [sample_template, sample_template])"
  using preprocessBody_prompt
          [of "[user_says ''  a cat  '']" "sample_adapter\<lparr>maxCharLength := 5\<rparr>"
              "[sample_template]" 0]
  by (simp add: preprocessBody_eq latest_def user_says_def sample_template_def
        sample_adapter_def js_simps trim_def is_ws_def ws_units_def)

text \<open>
  The claim as stated fails for the content \<open>hi\<close> between two spaces: the prompt keeps
  the spaces, and is not the trimmed text cut to the maximum length.
\<close>

theorem prompt_untrimmed_counterexample:
  "trim (content (user_says '' hi '')) = js ''hi''
   \<and> get_prop (cfg_body (snd (preprocessBody sample_adapter [sample_template] 0
                                 [user_says '' hi '']) ! 1)) (js ''prompt'')
       = Some (JString (js '' hi ''))
   \<and> get_prop (cfg_body (snd (preprocessBody sample_adapter [sample_template] 0
                                 [user_says '' hi '']) ! 1)) (js ''prompt'')
       \<noteq> Some (JString (substring0 (trim (content (user_says '' hi '')))
                          (maxCharLength sample_adapter)))"
  by (simp add: preprocessBody_eq latest_def user_says_def sample_template_def
        sample_adapter_def js_simps trim_def is_ws_def ws_units_def get_prop_def substring0_def)

subsection \<open>Classification and dispatch\<close>

lemma endpoint_inj: "endpoint op1 = endpoint op2 \<longleftrightarrow> op1 = op2"
  by (cases op1; cases op2)
     (simp_all add: IMAGE_GENERATION_URL_def IMAGE_EDIT_URL_def IMAGE_VARIATIONS_URL_def js_simps)

lemma endpoint_eq:
  "endpoint other = IMAGE_GENERATION_URL \<longleftrightarrow> other = Generation"
  "endpoint other = IMAGE_EDIT_URL \<longleftrightarrow> other = Edit"
  "endpoint other = IMAGE_VARIATIONS_URL \<longleftrightarrow> other = Variation"
  using endpoint_inj [of other Generation] endpoint_inj [of other Edit]
    endpoint_inj [of other Variation]
  by simp_all

lemma le2_cases: "length (fs :: 'a list) \<le> 2 \<Longrightarrow> fs = [] \<or> (\<exists>f. fs = [f]) \<or> (\<exists>f g. fs = [f, g])"
  by (cases fs; cases "tl fs"; cases "tl (tl fs)") auto

text \<open>
  C1 (as amended).  For an adapter whose request settings have headers, a non-empty
  history and at most two files, the send call dispatches one request, and the operation
  of the specification's table decides it: the adapter's \<open>url\<close> is the request settings'
  non-empty \<open>url\<close> if there is one and the endpoint of that operation otherwise; a
  generation sends a JSON body; a variation sends a form whose only binary part is
  \<open>image\<close>, the first file; an edit sends a form whose binary parts are \<open>image\<close>, the
  first file, followed by \<open>mask\<close>, the second file, exactly when there are two files.
  The three endpoints are different.
\<close>

theorem callApi_classification:
  assumes "rs_headers (requestSettings this) \<noteq> None" and "messages \<noteq> []"
    and "length (file_list files) \<le> 2"
  shows "\<exists>d this' s'.
      callApi this s messages files = (Inr d, this', s')
      \<and> d_io d = this'
      \<and> url this' = url_or (requestSettings this)
           (endpoint (spec_operation (content (last messages)) (length (file_list files))))
      \<and> (spec_operation (content (last messages)) (length (file_list files)) = Generation \<longrightarrow>
            (\<exists>body. d_body d = JsonBody body))
      \<and> (spec_operation (content (last messages)) (length (file_list files)) = Variation \<longrightarrow>
            (\<exists>form. d_body d = FormBody form
               \<and> binary_parts form = [(js ''image'', file_list files ! 0)]))
      \<and> (spec_operation (content (last messages)) (length (file_list files)) = Edit \<longrightarrow>
            (\<exists>form. d_body d = FormBody form
               \<and> binary_parts form =
                   (js ''image'', file_list files ! 0)
                   # (if length (file_list files) = 2 then [(js ''mask'', file_list files ! 1)]
                      else [])))
      \<and> (\<forall>other. endpoint other
                   = endpoint (spec_operation (content (last messages)) (length (file_list files)))
                 \<longrightarrow> other = spec_operation (content (last messages)) (length (file_list files)))"
proof -
  have m: "latest messages = Some (last messages)" using assms(2) by (rule latest_Some)
  consider "file_list files = []" | f where "file_list files = [f]"
    | f g where "file_list files = [f, g]"
    using le2_cases [OF assms(3)] by blast
  then show ?thesis
  proof cases
    case 1
    then show ?thesis using assms(1) m
      by (simp add: callApi_cases spec_operation_def endpoint_eq)
  next
    case 2
    then show ?thesis using assms(1) m
      by (simp add: callApi_cases callApiWithImage_cases spec_operation_def binary_parts_form
            createFormDataBody_def endpoint_eq)
  next
    case 3
    then show ?thesis using assms(1) m
      by (simp add: callApi_cases callApiWithImage_cases spec_operation_def binary_parts_form
            createFormDataBody_def endpoint_eq)
  qed
qed

theorem callApi_classification_witness:
  "rs_headers (requestSettings ready_adapter) \<noteq> None
   \<and> [user_says ''make it blue''] \<noteq> []
   \<and> length (file_list (Some [File 1, File 2])) \<le> 2
   \<and> fst (callApi ready_adapter [sample_template] [user_says ''make it blue'']
             (Some [File 1, File 2]))
      = Inr \<lparr>d_io = ready_adapter\<lparr>url := IMAGE_EDIT_URL\<rparr>,
              d_body = FormBody
                [(js ''image'', Blob (File 1)), (js ''mask'', Blob (File 2)),
                 (js ''n'', Text (js ''2'')), (js ''size'', Text (js ''256x256'')),
                 (js ''prompt'', Text (js ''make it blue''))]\<rparr>
   \<and> fst (callApi ready_adapter [sample_template] [user_says '' ''] (Some [File 1]))
      = Inr \<lparr>d_io = ready_adapter\<lparr>url := IMAGE_VARIATIONS_URL\<rparr>,
              d_body = FormBody
                [(js ''image'', Blob (File 1)),
                 (js ''n'', Text (js ''2'')), (js ''size'', Text (js ''256x256''))]\<rparr>"
  using callApi_classification
          [of ready_adapter "[user_says ''make it blue'']" "Some [File 1, File 2]"
              "[sample_template]"]
  by (simp add: ready_adapter_def sample_adapter_def sample_template_def user_says_def
        callApi_cases callApiWithImage_cases file_list_def latest_def preprocessBody_eq
        createFormDataBody_def url_or_def digits.simps js_simps trim_def is_ws_def ws_units_def)

text \<open>
  The claim as stated fails in two ways.  An adapter constructed without a key has no
  headers, and its send call throws instead of dispatching.  An adapter constructed with
  a key from a configuration whose request settings have a \<open>url\<close> dispatches a
  generation to that \<open>url\<close>, not to the generation endpoint.
\<close>

theorem callApi_classification_counterexample:
  "fst (callApi
          (fst (new_OpenAIImagesIO sample_externals [sample_config] sample_assistant None))
          (snd (new_OpenAIImagesIO sample_externals [sample_config] sample_assistant None))
          [user_says ''a cat''] (Some []))
     = Inl RequestSettingsNotSetUp
   \<and> url (fst (snd (callApi
          (fst (new_OpenAIImagesIO sample_externals [sample_config] sample_assistant
                  (Some (js ''sk-1''))))
          (snd (new_OpenAIImagesIO sample_externals [sample_config] sample_assistant
                  (Some (js ''sk-1''))))
          [user_says ''a cat''] (Some []))))
     = js ''https://proxy.example/images''
   \<and> js ''https://proxy.example/images'' \<noteq> IMAGE_GENERATION_URL"
  by (simp add: callApi_cases new_requestSettings new_store new_raw_body
        sample_assistant_def sample_config_def config_request_def buildRequestSettings_def
        empty_settings_def file_list_def latest_def user_says_def url_or_def
        IMAGE_GENERATION_URL_def js_simps)

subsection \<open>Construction, twice\<close>

lemma resolved_config_new:
  assumes "\<forall>c. openAI_completions ai = Object c \<longrightarrow> c < length s"
  shows "resolved_config (new_OpenAIImagesIO ext s ai key) =
     ([],
      (case validateMessageBeforeSending ai of None \<Rightarrow> canSendMessage | Some v \<Rightarrow> v),
      (case config_content s (openAI_completions ai) of
         None \<Rightarrow> default_images\<lparr>infoModalTextMarkUp := Some (render ext MODAL_MARKDOWN)\<rparr>
       | Some cfg \<Rightarrow> (case cfg_files cfg of
                        None \<Rightarrow> default_images
                      | Some fa \<Rightarrow> processImagesConfig ext fa default_images)),
      (if truthy_num (inputCharacterLimit ai) then the (inputCharacterLimit ai)
       else IMAGES_MAX_CHAR_LENGTH ext),
      (if truthy_str key
       then buildRequestSettings ext (the key)
              (case config_content s (openAI_completions ai) of
                 None \<Rightarrow> empty_settings
               | Some cfg \<Rightarrow> (case cfg_request cfg of None \<Rightarrow> empty_settings | Some r \<Rightarrow> r))
       else empty_settings),
      (case config_content s (openAI_completions ai) of
         None \<Rightarrow> empty_object
       | Some cfg \<Rightarrow> cfg\<lparr>cfg_files := None, cfg_request := None\<rparr>))"
  using assms
  by (cases "openAI_completions ai")
     (simp_all add: resolved_config_def new_url new_canSendMessage new_images new_maxCharLength
        new_requestSettings new_store new_raw_body config_content_def config_request_def
        cleanConfig_def nth_append)

text \<open>
  C9 (as amended).  The content of the constructed adapter is a function of the content
  of the caller's inputs: two constructions whose configuration objects have equal
  content, wherever they are in the store, and whose other inputs are equal, give the
  same file policy, modal markup, character limit, request settings, predicate and raw
  body template.  The construction deletes \<open>files\<close> and \<open>request\<close> from the caller's
  configuration object.
\<close>

theorem constructor_by_content:
  assumes "config_content s1 (openAI_completions ai1) = config_content s2 (openAI_completions ai2)"
    and "inputCharacterLimit ai1 = inputCharacterLimit ai2"
    and "validateMessageBeforeSending ai1 = validateMessageBeforeSending ai2"
    and "\<forall>c. openAI_completions ai1 = Object c \<longrightarrow> c < length s1"
    and "\<forall>c. openAI_completions ai2 = Object c \<longrightarrow> c < length s2"
  shows "resolved_config (new_OpenAIImagesIO ext s1 ai1 key)
           = resolved_config (new_OpenAIImagesIO ext s2 ai2 key)
     \<and> (\<forall>c. openAI_completions ai1 = Object c \<longrightarrow>
            snd (new_OpenAIImagesIO ext s1 ai1 key) ! c
              = (s1 ! c)\<lparr>cfg_files := None, cfg_request := None\<rparr>)"
proof -
  have same: "resolved_config (new_OpenAIImagesIO ext s1 ai1 key)
                = resolved_config (new_OpenAIImagesIO ext s2 ai2 key)"
    using assms by (simp add: resolved_config_new)
  have cleaned: "snd (new_OpenAIImagesIO ext s1 ai1 key) ! c
                   = (s1 ! c)\<lparr>cfg_files := None, cfg_request := None\<rparr>"
    if "openAI_completions ai1 = Object c" for c
  proof -
    have "c < length s1" using assms(4) that by simp
    then show ?thesis using that by (simp add: new_store cleanConfig_def nth_append)
  qed
  show ?thesis using same cleaned by simp
qed

theorem constructor_by_content_witness:
  "config_content [sample_config] (openAI_completions sample_assistant)
     = config_content [sample_template, sample_config]
         (openAI_completions (sample_assistant\<lparr>openAI_completions := Object 1\<rparr>))
   \<and> resolved_config (new_OpenAIImagesIO sample_externals [sample_config] sample_assistant None)
     = resolved_config (new_OpenAIImagesIO sample_externals [sample_template, sample_config]
                          (sample_assistant\<lparr>openAI_completions := Object 1\<rparr>) None)
   \<and> snd (new_OpenAIImagesIO sample_externals [sample_config] sample_assistant None) ! 0
     = sample_template"
  using constructor_by_content
          [of "[sample_config]" sample_assistant "[sample_template, sample_config]"
              "sample_assistant\<lparr>openAI_completions := Object 1\<rparr>" sample_externals None]
  by (simp add: config_content_def sample_assistant_def sample_config_def sample_template_def)

text \<open>
  The claim as stated fails when the same configuration object is passed twice: the
  first construction reads the files policy and deletes it from the object, and the
  second construction finds none, so it keeps the default format and sets no modal
  markup.
\<close>

theorem constructor_twice_counterexample:
  "img_files (images (fst
      (new_OpenAIImagesIO sample_externals [sample_config] sample_assistant None)))
     = Some \<lparr>acceptedFormats = Some (js ''.jpg''), maxNumberOfFiles = Some 2,
             infoModal = Some \<lparr>textMarkDown = None, openModalOnce = Some True\<rparr>\<rparr>
   \<and> img_files (images (fst
      (new_OpenAIImagesIO sample_externals
         (snd (new_OpenAIImagesIO sample_externals [sample_config] sample_assistant None))
         sample_assistant None)))
     = Some \<lparr>acceptedFormats = Some (js ''.png''), maxNumberOfFiles = Some 2,
             infoModal = Some \<lparr>textMarkDown = None, openModalOnce = Some True\<rparr>\<rparr>
   \<and> resolved_config
        (new_OpenAIImagesIO sample_externals [sample_config] sample_assistant None)
     \<noteq> resolved_config
        (new_OpenAIImagesIO sample_externals
           (snd (new_OpenAIImagesIO sample_externals [sample_config] sample_assistant None))
           sample_assistant None)"
  by (simp add: resolved_config_def new_images new_store cleanConfig_def sample_assistant_def
        sample_config_def processImagesConfig_def default_images_def assign_infoModal_def
        Let_def js_simps)


end
